theory Spec2Isabelle
  imports Main
begin

section \<open>The connector registry of \<^verbatim>\<open>superset/connectors/connector_registry.py\<close>\<close>

text \<open>
  \<^verbatim>\<open>ConnectorRegistry\<close> keeps one class-level dictionary, \<^verbatim>\<open>sources\<close>, from a
  datasource type tag to the datasource class registered for it, and dispatches lookups
  to the SQLAlchemy session the caller passes in. The embedding below makes the
  dictionary an explicit argument, every exception a value of \<open>error\<close>, and every loop a
  recursive function over the dictionary's values in insertion order.
\<close>

subsection \<open>Exceptions\<close>

text \<open>
  The exceptions that can leave the module. \<open>DatasetNotFoundError\<close> is the only one the
  module constructs itself besides the final \<open>NoResultFound\<close> of
  \<^verbatim>\<open>get_datasource_by_id\<close>; \<open>NoResultFound\<close> and \<open>MultipleResultsFound\<close> are what
  SQLAlchemy's \<^verbatim>\<open>Query.one\<close> and \<^verbatim>\<open>Query.one_or_none\<close> raise; \<open>KeyError\<close> is what
  indexing the dictionary with a missing key raises; \<open>ImportError\<close> and
  \<open>AttributeError\<close> come from \<^verbatim>\<open>__import__\<close> and \<^verbatim>\<open>getattr\<close>; \<open>SessionError\<close> stands for
  any other failure of the session while it executes a query. Exception messages are
  not modelled, only the key or name an exception is about.
\<close>

datatype error =
    DatasetNotFoundError
  | NoResultFound
  | MultipleResultsFound
  | KeyError string
  | ImportError string
  | AttributeError string
  | SessionError string

subsection \<open>Rows, queries and the session\<close>

text \<open>
  A datasource instance carries the attributes the module reads: \<^verbatim>\<open>id\<close>,
  \<^verbatim>\<open>database_id\<close>, \<^verbatim>\<open>perm\<close> and \<^verbatim>\<open>schema_perm\<close>. The owning database contributes
  \<^verbatim>\<open>id\<close> and \<^verbatim>\<open>type\<close>.
\<close>

record datasource =
  id_ds :: int
  database_id :: int
  perm :: string
  schema_perm :: string

record database =
  id_db :: int
  type_db :: string

text \<open>
  A query is represented by the outcome its execution will have: the failure of the
  session, or the rows it selects, in the order the session yields them. The session
  maps the table of a datasource class to the query over all of that table's rows.
\<close>

type_synonym query = "error + datasource list"

type_synonym session = "string \<Rightarrow> query"

text \<open>
  A datasource class, as far as the registry uses it: the table it is mapped to, its
  \<^verbatim>\<open>type\<close> attribute, and the three class methods the registry calls. They are
  implemented outside this module and are therefore fields.
\<close>

record datasource_class =
  tablename :: string
  type_cls :: string
  default_query :: "query \<Rightarrow> query"
  get_datasource_by_name_cls ::
    "session \<Rightarrow> string \<Rightarrow> string \<Rightarrow> string \<Rightarrow> error + datasource option"
  query_datasources_by_name_cls ::
    "session \<Rightarrow> database \<Rightarrow> string \<Rightarrow> string option \<Rightarrow> error + datasource list"

text \<open>\<^verbatim>\<open>session.query(cls)\<close>\<close>

definition session_query :: "session \<Rightarrow> datasource_class \<Rightarrow> query" where
  "session_query session datasource_class = session (tablename datasource_class)"

text \<open>\<^verbatim>\<open>Query.filter\<close> and \<^verbatim>\<open>Query.filter_by\<close>: keep the rows that satisfy the criterion.\<close>

fun filter_q :: "(datasource \<Rightarrow> bool) \<Rightarrow> query \<Rightarrow> query" where
  "filter_q criterion (Inl e) = Inl e"
| "filter_q criterion (Inr rows) = Inr (filter criterion rows)"

text \<open>
  \<^verbatim>\<open>Query.one\<close>: exactly one row, else \<open>NoResultFound\<close> for none and
  \<open>MultipleResultsFound\<close> for several.
\<close>

fun one :: "query \<Rightarrow> error + datasource" where
  "one (Inl e) = Inl e"
| "one (Inr []) = Inl NoResultFound"
| "one (Inr [row]) = Inr row"
| "one (Inr (row # row' # rows)) = Inl MultipleResultsFound"

text \<open>
  \<^verbatim>\<open>Query.one_or_none\<close>: \<^verbatim>\<open>None\<close> for no row, the row for exactly one, and
  \<open>MultipleResultsFound\<close> for several.
\<close>

fun one_or_none :: "query \<Rightarrow> error + datasource option" where
  "one_or_none (Inl e) = Inl e"
| "one_or_none (Inr []) = Inr None"
| "one_or_none (Inr [row]) = Inr (Some row)"
| "one_or_none (Inr (row # row' # rows)) = Inl MultipleResultsFound"

text \<open>\<^verbatim>\<open>Query.all\<close>: every selected row.\<close>

definition all_q :: "query \<Rightarrow> error + datasource list" where
  "all_q q = q"

subsection \<open>The registry dictionary\<close>

text \<open>
  \<^verbatim>\<open>sources\<close> is a Python \<^verbatim>\<open>dict\<close>: iteration follows insertion order, and assigning to
  a key that is present replaces its value where it stands. It is an association list
  whose keys are kept distinct by \<open>setitem\<close>.
\<close>

type_synonym sources = "(string \<times> datasource_class) list"

fun setitem :: "sources \<Rightarrow> string \<Rightarrow> datasource_class \<Rightarrow> sources" where
  "setitem [] k v = [(k, v)]"
| "setitem ((k', v') # kvs) k v =
     (if k' = k then (k, v) # kvs else (k', v') # setitem kvs k v)"

text \<open>\<^verbatim>\<open>sources.get(k)\<close>; \<^verbatim>\<open>k in sources\<close> is \<open>getitem sources k \<noteq> None\<close>.\<close>

fun getitem :: "sources \<Rightarrow> string \<Rightarrow> datasource_class option" where
  "getitem [] k = None"
| "getitem ((k', v') # kvs) k = (if k' = k then Some v' else getitem kvs k)"

text \<open>\<^verbatim>\<open>sources.values()\<close>\<close>

definition values_of :: "sources \<Rightarrow> datasource_class list" where
  "values_of srcs = map snd srcs"

subsection \<open>\<^verbatim>\<open>get_datasource\<close>\<close>

text \<open>
  The dictionary is the class attribute \<^verbatim>\<open>cls.sources\<close>; here it is the first argument.
  A datasource instance is a true value, so \<^verbatim>\<open>not datasource\<close> holds of \<^verbatim>\<open>None\<close> only.
\<close>

definition get_datasource ::
  "sources \<Rightarrow> string \<Rightarrow> int \<Rightarrow> session \<Rightarrow> error + datasource" where
  "get_datasource srcs datasource_type datasource_id session =
     (case getitem srcs datasource_type of
        None \<Rightarrow> Inl DatasetNotFoundError
      | Some source_class \<Rightarrow>
          (case one_or_none
                  (filter_q (\<lambda>row. id_ds row = datasource_id)
                     (session_query session source_class)) of
             Inl e \<Rightarrow> Inl e
           | Inr None \<Rightarrow> Inl DatasetNotFoundError
           | Inr (Some datasource) \<Rightarrow> Inr datasource))"

subsection \<open>\<^verbatim>\<open>register_sources\<close>\<close>

text \<open>
  \<^verbatim>\<open>register_sources\<close> resolves names through Python's import system. A module object
  answers \<^verbatim>\<open>getattr\<close> (\<open>None\<close>: the attribute is missing, \<open>AttributeError\<close>); the
  importer answers \<^verbatim>\<open>__import__\<close> (\<open>None\<close>: the module cannot be imported,
  \<open>ImportError\<close>). The configuration is the list of the items of the ordered dictionary
  the function receives; its class names are strings already, which \<^verbatim>\<open>str\<close> returns
  unchanged. The function updates the dictionary in place, so an exception
  leaves the assignments made before it: the result is the exception, if any, together
  with the dictionary as the call leaves it.
\<close>

type_synonym module_obj = "string \<Rightarrow> datasource_class option"

type_synonym importer = "string \<Rightarrow> module_obj option"

fun register_classes ::
  "module_obj \<Rightarrow> string list \<Rightarrow> sources \<Rightarrow> error option \<times> sources" where
  "register_classes module_obj [] srcs = (None, srcs)"
| "register_classes module_obj (class_name # class_names) srcs =
     (case module_obj class_name of
        None \<Rightarrow> (Some (AttributeError class_name), srcs)
      | Some source_class \<Rightarrow>
          register_classes module_obj class_names
            (setitem srcs (type_cls source_class) source_class))"

fun register_sources ::
  "importer \<Rightarrow> (string \<times> string list) list \<Rightarrow> sources \<Rightarrow> error option \<times> sources" where
  "register_sources import_fn [] srcs = (None, srcs)"
| "register_sources import_fn ((module_name, class_names) # datasource_config) srcs =
     (case import_fn module_name of
        None \<Rightarrow> (Some (ImportError module_name), srcs)
      | Some module_obj \<Rightarrow>
          (case register_classes module_obj class_names srcs of
             (Some e, srcs') \<Rightarrow> (Some e, srcs')
           | (None, srcs') \<Rightarrow> register_sources import_fn datasource_config srcs'))"

text \<open>
  The classes a call of \<^verbatim>\<open>register_sources\<close> assigns into the dictionary, in the order
  of the assignments: the same two loops, recording \<^verbatim>\<open>source_class\<close> instead of storing
  it, up to the first name that does not resolve.
\<close>

fun assigned_classes :: "module_obj \<Rightarrow> string list \<Rightarrow> bool \<times> datasource_class list" where
  "assigned_classes module_obj [] = (True, [])"
| "assigned_classes module_obj (class_name # class_names) =
     (case module_obj class_name of
        None \<Rightarrow> (False, [])
      | Some source_class \<Rightarrow>
          (case assigned_classes module_obj class_names of
             (ok, cs) \<Rightarrow> (ok, source_class # cs)))"

fun assigned_sources :: "importer \<Rightarrow> (string \<times> string list) list \<Rightarrow> datasource_class list" where
  "assigned_sources import_fn [] = []"
| "assigned_sources import_fn ((module_name, class_names) # datasource_config) =
     (case import_fn module_name of
        None \<Rightarrow> []
      | Some module_obj \<Rightarrow>
          (case assigned_classes module_obj class_names of
             (ok, cs) \<Rightarrow> if ok then cs @ assigned_sources import_fn datasource_config else cs))"

subsection \<open>\<^verbatim>\<open>get_all_datasources\<close>\<close>

fun get_all_datasources_loop ::
  "session \<Rightarrow> datasource_class list \<Rightarrow> datasource list \<Rightarrow> error + datasource list" where
  "get_all_datasources_loop session [] datasources = Inr datasources"
| "get_all_datasources_loop session (source_class # source_classes) datasources =
     (case all_q (default_query source_class (session_query session source_class)) of
        Inl e \<Rightarrow> Inl e
      | Inr rows \<Rightarrow> get_all_datasources_loop session source_classes (datasources @ rows))"

definition get_all_datasources :: "sources \<Rightarrow> session \<Rightarrow> error + datasource list" where
  "get_all_datasources srcs session = get_all_datasources_loop session (values_of srcs) []"

subsection \<open>\<^verbatim>\<open>get_datasource_by_id\<close>\<close>

text \<open>
  The \<^verbatim>\<open>try\<close> block encloses the whole query, so the handler catches every
  \<open>NoResultFound\<close> that reaches it; any other exception leaves the loop.
\<close>

fun get_datasource_by_id_loop ::
  "session \<Rightarrow> datasource_class list \<Rightarrow> int \<Rightarrow> error + datasource" where
  "get_datasource_by_id_loop session [] datasource_id = Inl NoResultFound"
| "get_datasource_by_id_loop session (datasource_class # datasource_classes) datasource_id =
     (case one (filter_q (\<lambda>row. id_ds row = datasource_id)
                  (session_query session datasource_class)) of
        Inr datasource \<Rightarrow> Inr datasource
      | Inl e \<Rightarrow>
          if e = NoResultFound
          then get_datasource_by_id_loop session datasource_classes datasource_id
          else Inl e)"

definition get_datasource_by_id :: "sources \<Rightarrow> session \<Rightarrow> int \<Rightarrow> error + datasource" where
  "get_datasource_by_id srcs session datasource_id =
     get_datasource_by_id_loop session (values_of srcs) datasource_id"

subsection \<open>\<^verbatim>\<open>get_datasource_by_name\<close>\<close>

definition get_datasource_by_name ::
  "sources \<Rightarrow> session \<Rightarrow> string \<Rightarrow> string \<Rightarrow> string \<Rightarrow> string \<Rightarrow> error + datasource option" where
  "get_datasource_by_name srcs session datasource_type datasource_name schema database_name =
     (case getitem srcs datasource_type of
        None \<Rightarrow> Inl (KeyError datasource_type)
      | Some datasource_class \<Rightarrow>
          get_datasource_by_name_cls datasource_class session datasource_name schema database_name)"

subsection \<open>\<^verbatim>\<open>query_datasources_by_permissions\<close>\<close>

definition query_datasources_by_permissions ::
  "sources \<Rightarrow> session \<Rightarrow> database \<Rightarrow> string set \<Rightarrow> string set \<Rightarrow> error + datasource list" where
  "query_datasources_by_permissions srcs session database permissions schema_perms =
     (case getitem srcs (type_db database) of
        None \<Rightarrow> Inl (KeyError (type_db database))
      | Some datasource_class \<Rightarrow>
          all_q
            (filter_q (\<lambda>row. perm row \<in> permissions \<or> schema_perm row \<in> schema_perms)
               (filter_q (\<lambda>row. database_id row = id_db database)
                  (session_query session datasource_class))))"

subsection \<open>\<^verbatim>\<open>get_eager_datasource\<close>\<close>

text \<open>
  \<^verbatim>\<open>Query.options(subqueryload(...))\<close> asks for the \<^verbatim>\<open>columns\<close> and \<^verbatim>\<open>metrics\<close>
  relations to be loaded with the rows; it selects the same rows.
\<close>

definition options_subqueryload :: "query \<Rightarrow> query" where
  "options_subqueryload q = q"

definition get_eager_datasource ::
  "sources \<Rightarrow> session \<Rightarrow> string \<Rightarrow> int \<Rightarrow> error + datasource" where
  "get_eager_datasource srcs session datasource_type datasource_id =
     (case getitem srcs datasource_type of
        None \<Rightarrow> Inl (KeyError datasource_type)
      | Some datasource_class \<Rightarrow>
          one (filter_q (\<lambda>row. id_ds row = datasource_id)
                 (options_subqueryload (session_query session datasource_class))))"

subsection \<open>\<^verbatim>\<open>query_datasources_by_name\<close>\<close>

definition query_datasources_by_name ::
  "sources \<Rightarrow> session \<Rightarrow> database \<Rightarrow> string \<Rightarrow> string option \<Rightarrow> error + datasource list" where
  "query_datasources_by_name srcs session database datasource_name schema =
     (case getitem srcs (type_db database) of
        None \<Rightarrow> Inl (KeyError (type_db database))
      | Some datasource_class \<Rightarrow>
          query_datasources_by_name_cls datasource_class session database datasource_name schema)"

subsection \<open>The query by id\<close>

text \<open>
  \<^verbatim>\<open>session.query(cls).filter_by(id=datasource_id)\<close>, the query that
  \<^verbatim>\<open>get_datasource\<close>, \<^verbatim>\<open>get_datasource_by_id\<close> and \<^verbatim>\<open>get_eager_datasource\<close> build.
\<close>

abbreviation rows_by_id :: "session \<Rightarrow> datasource_class \<Rightarrow> int \<Rightarrow> query" where
  "rows_by_id session c i \<equiv> filter_q (\<lambda>row. id_ds row = i) (session_query session c)"

subsection \<open>An example installation\<close>

text \<open>
  Three datasource classes. \<open>example_X\<close> and \<open>example_X2\<close> declare the same type tag
  \<open>''x''\<close>; \<open>example_X\<close> scopes its default query to the rows of database 10 and finds
  one datasource by name; the others keep the inherited behaviour.
\<close>

definition example_x1 :: datasource where
  "example_x1 = \<lparr>id_ds = 1, database_id = 10, perm = ''p1'', schema_perm = ''s1''\<rparr>"

definition example_x1_dup :: datasource where
  "example_x1_dup = \<lparr>id_ds = 1, database_id = 11, perm = ''p9'', schema_perm = ''s9''\<rparr>"

definition example_x2 :: datasource where
  "example_x2 = \<lparr>id_ds = 2, database_id = 10, perm = ''p2'', schema_perm = ''s2''\<rparr>"

definition example_x3 :: datasource where
  "example_x3 = \<lparr>id_ds = 3, database_id = 11, perm = ''p1'', schema_perm = ''s1''\<rparr>"

definition example_x5 :: datasource where
  "example_x5 = \<lparr>id_ds = 5, database_id = 10, perm = ''p5'', schema_perm = ''s5''\<rparr>"

definition example_y1 :: datasource where
  "example_y1 = \<lparr>id_ds = 1, database_id = 10, perm = ''p3'', schema_perm = ''s1''\<rparr>"

definition example_y1_dup :: datasource where
  "example_y1_dup = \<lparr>id_ds = 1, database_id = 12, perm = ''p8'', schema_perm = ''s8''\<rparr>"

definition example_y4 :: datasource where
  "example_y4 = \<lparr>id_ds = 4, database_id = 10, perm = ''p4'', schema_perm = ''s4''\<rparr>"

definition example_w1 :: datasource where
  "example_w1 = \<lparr>id_ds = 1, database_id = 20, perm = ''p6'', schema_perm = ''s6''\<rparr>"

definition example_X :: datasource_class where
  "example_X =
     \<lparr>tablename = ''x_table'', type_cls = ''x'',
      default_query = filter_q (\<lambda>row. database_id row = 10),
      get_datasource_by_name_cls =
        (\<lambda>session datasource_name schema database_name.
           if datasource_name = ''births'' then Inr (Some example_x1) else Inr None),
      query_datasources_by_name_cls = (\<lambda>session database datasource_name schema. Inr [])\<rparr>"

definition example_X2 :: datasource_class where
  "example_X2 =
     \<lparr>tablename = ''x2_table'', type_cls = ''x'',
      default_query = (\<lambda>qry. qry),
      get_datasource_by_name_cls = (\<lambda>session datasource_name schema database_name. Inr None),
      query_datasources_by_name_cls = (\<lambda>session database datasource_name schema. Inr [])\<rparr>"

definition example_Y :: datasource_class where
  "example_Y =
     \<lparr>tablename = ''y_table'', type_cls = ''y'',
      default_query = (\<lambda>qry. qry),
      get_datasource_by_name_cls = (\<lambda>session datasource_name schema database_name. Inr None),
      query_datasources_by_name_cls = (\<lambda>session database datasource_name schema. Inr [])\<rparr>"

definition example_W :: datasource_class where
  "example_W =
     \<lparr>tablename = ''w_table'', type_cls = ''w'',
      default_query = (\<lambda>qry. qry),
      get_datasource_by_name_cls = (\<lambda>session datasource_name schema database_name. Inr None),
      query_datasources_by_name_cls = (\<lambda>session database datasource_name schema. Inr [])\<rparr>"

text \<open>The registry with \<open>''x''\<close> registered before \<open>''y''\<close>, and the same with \<open>''w''\<close> after them.\<close>

definition example_sources :: sources where
  "example_sources = [(''x'', example_X), (''y'', example_Y)]"

definition example_sources3 :: sources where
  "example_sources3 = [(''x'', example_X), (''y'', example_Y), (''w'', example_W)]"

text \<open>The modules the example configuration names.\<close>

definition example_import :: importer where
  "example_import module_name =
     (if module_name = ''connectors.x''
      then Some (\<lambda>class_name.
             if class_name = ''X'' then Some example_X
             else if class_name = ''X2'' then Some example_X2
             else None)
      else if module_name = ''connectors.y''
      then Some (\<lambda>class_name. if class_name = ''Y'' then Some example_Y else None)
      else None)"

text \<open>
  Four sessions: one with unique ids in every table; one where the table of
  \<open>example_X\<close> holds two rows of id 1; one where the table of \<open>example_Y\<close> does, and that
  of \<open>example_X\<close> has no row of id 1; and one that loses its connection when it queries
  the table of \<open>example_Y\<close>.
\<close>

definition example_session :: session where
  "example_session t =
     (if t = ''x_table'' then Inr [example_x1, example_x2, example_x3, example_x5]
      else if t = ''y_table'' then Inr [example_y1, example_y4]
      else if t = ''w_table'' then Inr [example_w1]
      else Inl (SessionError ''no such table''))"

definition duplicate_session :: session where
  "duplicate_session t =
     (if t = ''x_table'' then Inr [example_x1, example_x1_dup, example_x2]
      else if t = ''y_table'' then Inr [example_y1]
      else Inl (SessionError ''no such table''))"

definition ambiguous_session :: session where
  "ambiguous_session t =
     (if t = ''x_table'' then Inr [example_x2, example_x3]
      else if t = ''y_table'' then Inr [example_y1, example_y1_dup]
      else if t = ''w_table'' then Inr [example_w1]
      else Inl (SessionError ''no such table''))"

definition broken_session :: session where
  "broken_session t =
     (if t = ''x_table'' then Inr [example_x2, example_x3]
      else if t = ''y_table'' then Inl (SessionError ''connection lost'')
      else if t = ''w_table'' then Inr [example_w1]
      else Inl (SessionError ''no such table''))"

section \<open>Properties\<close>

subsection \<open>The dictionary\<close>

lemma getitem_setitem:
  "getitem (setitem srcs k v) k' = (if k' = k then Some v else getitem srcs k')"
  by (induction srcs) auto

lemma keys_setitem:
  "map fst (setitem srcs k v)
   = (if k \<in> set (map fst srcs) then map fst srcs else map fst srcs @ [k])"
  by (induction srcs) force+

lemma find_append_list:
  "find P (xs @ ys) = (case find P xs of None \<Rightarrow> find P ys | Some x \<Rightarrow> Some x)"
  by (induction xs) auto

lemma distinct_setitem:
  "distinct (map fst srcs) \<Longrightarrow> distinct (map fst (setitem srcs k v))"
proof (induction srcs)
  case Nil
  then show ?case by simp
next
  case (Cons p srcs)
  obtain k' v' where p: "p = (k', v')" by (cases p)
  show ?case
  proof (cases "k' = k")
    case True
    with Cons.prems p show ?thesis by simp
  next
    case False
    from Cons.prems p have "k' \<notin> set (map fst srcs)" and "distinct (map fst srcs)" by simp_all
    with Cons.IH False p show ?thesis
      using keys_setitem [of srcs k v] by (auto split: if_splits)
  qed
qed

lemma register_classes_assigned:
  "snd (register_classes module_obj class_names srcs)
   = fold (\<lambda>c s. setitem s (type_cls c) c) (snd (assigned_classes module_obj class_names)) srcs"
  by (induction class_names arbitrary: srcs) (auto split: option.splits prod.splits)

lemma register_classes_ok:
  "fst (register_classes module_obj class_names srcs) = None
   \<longleftrightarrow> fst (assigned_classes module_obj class_names)"
  by (induction class_names arbitrary: srcs) (auto split: option.splits prod.splits)

lemma register_sources_assigned:
  "snd (register_sources import_fn datasource_config srcs)
   = fold (\<lambda>c s. setitem s (type_cls c) c) (assigned_sources import_fn datasource_config) srcs"
proof (induction datasource_config arbitrary: srcs)
  case Nil
  then show ?case by simp
next
  case (Cons item datasource_config)
  obtain mname class_names where item: "item = (mname, class_names)" by (cases item)
  show ?case
  proof (cases "import_fn mname")
    case None
    with item show ?thesis by simp
  next
    case (Some module_obj)
    obtain err srcs' where r: "register_classes module_obj class_names srcs = (err, srcs')"
      by (cases "register_classes module_obj class_names srcs")
    obtain ok cs where a: "assigned_classes module_obj class_names = (ok, cs)"
      by (cases "assigned_classes module_obj class_names")
    from r a have s: "srcs' = fold (\<lambda>c s. setitem s (type_cls c) c) cs srcs"
      using register_classes_assigned [of module_obj class_names srcs] by simp
    from r a have o: "err = None \<longleftrightarrow> ok"
      using register_classes_ok [of module_obj class_names srcs] by simp
    show ?thesis
    proof (cases err)
      case None
      with o have ok by simp
      with item Some r a None s Cons.IH [of srcs'] show ?thesis by simp
    next
      case (Some e)
      with o have "\<not> ok" by simp
      with item \<open>import_fn mname = Some module_obj\<close> r a Some s show ?thesis by simp
    qed
  qed
qed

lemma register_classes_outcome:
  "fst (register_classes module_obj class_names srcs)
   = fst (register_classes module_obj class_names srcs')"
  by (induction class_names arbitrary: srcs srcs') (auto split: option.splits)

lemma register_sources_outcome:
  "fst (register_sources import_fn datasource_config srcs)
   = fst (register_sources import_fn datasource_config srcs')"
proof (induction datasource_config arbitrary: srcs srcs')
  case Nil
  then show ?case by simp
next
  case (Cons item datasource_config)
  obtain mname class_names where item: "item = (mname, class_names)" by (cases item)
  show ?case
  proof (cases "import_fn mname")
    case None
    with item show ?thesis by simp
  next
    case (Some module_obj)
    obtain err s1 where r1: "register_classes module_obj class_names srcs = (err, s1)"
      by (cases "register_classes module_obj class_names srcs")
    obtain err' s2 where r2: "register_classes module_obj class_names srcs' = (err', s2)"
      by (cases "register_classes module_obj class_names srcs'")
    from r1 r2 have "err = err'"
      using register_classes_outcome [of module_obj class_names srcs srcs'] by simp
    with item Some r1 r2 Cons.IH [of s1 s2] show ?thesis
      by (cases err') simp_all
  qed
qed

lemma getitem_fold_setitem:
  "getitem (fold (\<lambda>c s. setitem s (type_cls c) c) cs srcs) t
   = (case find (\<lambda>c. type_cls c = t) (rev cs) of
        Some c \<Rightarrow> Some c
      | None \<Rightarrow> getitem srcs t)"
proof (induction cs arbitrary: srcs)
  case Nil
  then show ?case by simp
next
  case (Cons c cs)
  show ?case
    by (simp add: Cons.IH find_append_list getitem_setitem split: option.splits)
qed

lemma distinct_fold_setitem:
  "distinct (map fst srcs) \<Longrightarrow> distinct (map fst (fold (\<lambda>c s. setitem s (type_cls c) c) cs srcs))"
  by (induction cs arbitrary: srcs) (simp_all add: distinct_setitem)

subsection \<open>The loops\<close>

lemma get_all_datasources_loop_concat:
  assumes "\<forall>c \<in> set cs. all_q (default_query c (session_query session c)) = Inr (scoped c)"
  shows "get_all_datasources_loop session cs datasources
         = Inr (datasources @ concat (map scoped cs))"
  using assms by (induction cs arbitrary: datasources) simp_all

lemma get_datasource_by_id_loop_skip:
  assumes "\<forall>c \<in> set earlier. one (rows_by_id session c i) = Inl NoResultFound"
  shows "get_datasource_by_id_loop session (earlier @ rest) i
         = get_datasource_by_id_loop session rest i"
  using assms by (induction earlier) simp_all

lemma get_datasource_by_id_loop_not_found:
  "get_datasource_by_id_loop session cs i = Inl NoResultFound
   \<longleftrightarrow> (\<forall>c \<in> set cs. one (rows_by_id session c i) = Inl NoResultFound)"
  by (induction cs) (auto split: sum.splits)

lemma one_no_row:
  assumes "q \<noteq> Inl NoResultFound"
  shows "one (filter_q criterion q) = Inl NoResultFound \<longleftrightarrow> filter_q criterion q = Inr []"
proof (cases q)
  case (Inl e)
  with assms show ?thesis by simp
next
  case (Inr rows)
  show ?thesis
  proof (cases "filter criterion rows")
    case Nil
    with Inr show ?thesis by simp
  next
    case (Cons row rest)
    with Inr show ?thesis by (cases rest) simp_all
  qed
qed

subsection \<open>Facts about the example installation\<close>

lemmas example_rows =
  example_x1_def example_x1_dup_def example_x2_def example_x3_def example_x5_def
  example_y1_def example_y1_dup_def example_y4_def example_w1_def

lemma example_tablenames:
  "tablename example_X = ''x_table''" "tablename example_X2 = ''x2_table''"
  "tablename example_Y = ''y_table''" "tablename example_W = ''w_table''"
  by (simp_all add: example_X_def example_X2_def example_Y_def example_W_def)

lemma example_types:
  "type_cls example_X = ''x''" "type_cls example_X2 = ''x''"
  "type_cls example_Y = ''y''" "type_cls example_W = ''w''"
  by (simp_all add: example_X_def example_X2_def example_Y_def example_W_def)

lemma example_default_queries:
  "default_query example_X = filter_q (\<lambda>row. database_id row = 10)"
  "default_query example_Y qry = qry" "default_query example_W qry = qry"
  by (simp_all add: example_X_def example_Y_def example_W_def)

subsection \<open>Registration\<close>

text \<open>
  C3. A call of \<^verbatim>\<open>register_sources\<close> on a dictionary with distinct keys leaves a
  dictionary with distinct keys, whether or not the call ends in an exception: a tag
  has at most one class. After the call, the lookup of a tag yields the class that the
  call assigned last among those declaring this tag, whatever was registered under the
  tag before; a tag that no assigned class declares keeps its earlier entry. The
  replacement is silent: whether the call raises, and what, is the same as on the empty
  dictionary, so a tag already in use never makes it fail. The empty dictionary the
  registry starts from has distinct keys, so all this holds after any sequence of calls.
\<close>

theorem register_sources_last_wins:
  assumes "distinct (map fst srcs)"
  shows "distinct (map fst (snd (register_sources import_fn datasource_config srcs)))
       \<and> getitem (snd (register_sources import_fn datasource_config srcs)) t
         = (case find (\<lambda>c. type_cls c = t) (rev (assigned_sources import_fn datasource_config)) of
              Some c \<Rightarrow> Some c
            | None \<Rightarrow> getitem srcs t)
       \<and> fst (register_sources import_fn datasource_config srcs)
         = fst (register_sources import_fn datasource_config [])"
  using assms register_sources_outcome [of import_fn datasource_config srcs "[]"]
  by (simp add: register_sources_assigned getitem_fold_setitem distinct_fold_setitem)

text \<open>
  The example configuration fills the empty registry with \<open>example_sources\<close>;
  registering \<open>example_X2\<close>, which also declares \<open>''x''\<close>, then replaces \<open>example_X\<close>
  without an exception and without a second entry.
\<close>

theorem register_sources_last_wins_witness:
  "distinct (map fst example_sources)
   \<and> register_sources example_import
        [(''connectors.x'', [''X'']), (''connectors.y'', [''Y''])] [] = (None, example_sources)
   \<and> getitem example_sources ''x'' = Some example_X
   \<and> register_sources example_import [(''connectors.x'', [''X2''])] example_sources
       = (None, [(''x'', example_X2), (''y'', example_Y)])
   \<and> getitem (snd (register_sources example_import [(''connectors.x'', [''X2''])]
                     example_sources)) ''x'' = Some example_X2
   \<and> distinct (map fst (snd (register_sources example_import [(''connectors.x'', [''X2''])]
                              example_sources)))"
proof -
  have d: "distinct (map fst example_sources)"
    by (simp add: example_sources_def)
  have a: "assigned_sources example_import [(''connectors.x'', [''X2''])] = [example_X2]"
    by (simp add: example_import_def)
  have r1: "register_sources example_import
        [(''connectors.x'', [''X'']), (''connectors.y'', [''Y''])] [] = (None, example_sources)"
    by (simp add: example_import_def example_sources_def example_types)
  have r2: "register_sources example_import [(''connectors.x'', [''X2''])] example_sources
       = (None, [(''x'', example_X2), (''y'', example_Y)])"
    by (simp add: example_import_def example_sources_def example_types)
  have g: "getitem example_sources ''x'' = Some example_X"
    by (simp add: example_sources_def)
  from register_sources_last_wins [OF d, of example_import "[(''connectors.x'', [''X2''])]" "''x''"]
  show ?thesis using d a r1 r2 g by (simp add: example_types)
qed

subsection \<open>\<^verbatim>\<open>get_datasource\<close>\<close>

text \<open>
  The specification names three kinds of lookup failure. In the code they are the
  exceptions \<^verbatim>\<open>KeyError\<close> (it calls it \<open>UnknownDatasourceType\<close>: the dictionary has not
  this type tag), \<^verbatim>\<open>DatasetNotFoundError\<close> (\<open>DatasourceNotFound\<close>) and
  \<^verbatim>\<open>NoResultFound\<close> (\<open>NotFound\<close>).
\<close>

text \<open>
  C1, as the specification states it, fails: for an unregistered tag \<^verbatim>\<open>get_datasource\<close>
  does not raise the unknown-type failure but \<^verbatim>\<open>DatasetNotFoundError\<close>, the very
  failure it raises for a registered tag and an id that no row has.
\<close>

theorem get_datasource_unknown_type_counterexample:
  "getitem example_sources ''z'' = None
   \<and> get_datasource example_sources ''z'' 1 example_session \<noteq> Inl (KeyError ''z'')
   \<and> get_datasource example_sources ''z'' 1 example_session
     = get_datasource example_sources ''x'' 99 example_session"
  by (simp add: get_datasource_def example_sources_def example_session_def session_query_def
      example_tablenames example_rows)

text \<open>
  C1, amended. With a type tag that is not a key of the registry, \<^verbatim>\<open>get_datasource\<close>
  fails with \<^verbatim>\<open>DatasetNotFoundError\<close> at the membership test, whatever the id and
  whatever the session (also one whose every query would fail): the session is not
  consulted.
\<close>

theorem get_datasource_unregistered:
  assumes "getitem srcs datasource_type = None"
  shows "get_datasource srcs datasource_type datasource_id session = Inl DatasetNotFoundError
       \<and> get_datasource srcs datasource_type datasource_id session
         = get_datasource srcs datasource_type datasource_id' session'"
  using assms by (simp add: get_datasource_def)

theorem get_datasource_unregistered_witness:
  "getitem example_sources ''z'' = None
   \<and> get_datasource example_sources ''z'' 1 example_session = Inl DatasetNotFoundError
   \<and> get_datasource example_sources ''z'' 1 example_session
     = get_datasource example_sources ''z'' 2 broken_session"
proof -
  have h: "getitem example_sources ''z'' = None"
    by (simp add: example_sources_def)
  from get_datasource_unregistered [OF h, of 1 example_session 2 broken_session] h
  show ?thesis by blast
qed

text \<open>
  C2, as the specification states it, fails where several rows have the id: with two
  rows of id 1 in the table of \<open>example_X\<close> the lookup ends in
  \<^verbatim>\<open>MultipleResultsFound\<close>, which \<^verbatim>\<open>one_or_none\<close> raises and \<^verbatim>\<open>get_datasource\<close> does
  not catch, not in \<^verbatim>\<open>DatasetNotFoundError\<close>.
\<close>

theorem get_datasource_ambiguous_counterexample:
  "get_datasource example_sources ''x'' 1 duplicate_session = Inl MultipleResultsFound
   \<and> get_datasource example_sources ''x'' 1 duplicate_session \<noteq> Inl DatasetNotFoundError"
  by (simp add: get_datasource_def example_sources_def duplicate_session_def session_query_def
      example_tablenames example_rows)

text \<open>
  C2, amended. For a registered tag whose table the session can read,
  \<^verbatim>\<open>get_datasource\<close> returns the row when exactly one row of the class has the id, fails
  with \<^verbatim>\<open>DatasetNotFoundError\<close> when none has, and fails with \<^verbatim>\<open>MultipleResultsFound\<close>
  when several have: no row and several rows are different failures.
\<close>

theorem get_datasource_registered:
  assumes "getitem srcs datasource_type = Some source_class"
      and "session_query session source_class = Inr rows"
  shows "get_datasource srcs datasource_type datasource_id session
         = (case filter (\<lambda>row. id_ds row = datasource_id) rows of
              [] \<Rightarrow> Inl DatasetNotFoundError
            | [row] \<Rightarrow> Inr row
            | row # row' # rows' \<Rightarrow> Inl MultipleResultsFound)"
  using assms
  by (simp add: get_datasource_def split: list.splits)

theorem get_datasource_registered_witness:
  "getitem example_sources ''y'' = Some example_Y
   \<and> session_query example_session example_Y = Inr [example_y1, example_y4]
   \<and> get_datasource example_sources ''y'' 1 example_session = Inr example_y1
   \<and> get_datasource example_sources ''y'' 99 example_session = Inl DatasetNotFoundError
   \<and> session_query duplicate_session example_X = Inr [example_x1, example_x1_dup, example_x2]
   \<and> get_datasource example_sources ''x'' 1 duplicate_session = Inl MultipleResultsFound"
proof -
  have y: "getitem example_sources ''y'' = Some example_Y"
    and x: "getitem example_sources ''x'' = Some example_X"
    by (simp_all add: example_sources_def)
  have sy: "session_query example_session example_Y = Inr [example_y1, example_y4]"
    by (simp add: session_query_def example_session_def example_tablenames)
  have sx: "session_query duplicate_session example_X
            = Inr [example_x1, example_x1_dup, example_x2]"
    by (simp add: session_query_def duplicate_session_def example_tablenames)
  from get_datasource_registered [OF y sy, of 1]
  have one_row: "get_datasource example_sources ''y'' 1 example_session = Inr example_y1"
    by (simp add: example_rows)
  from get_datasource_registered [OF y sy, of 99]
  have no_row: "get_datasource example_sources ''y'' 99 example_session
                = Inl DatasetNotFoundError"
    by (simp add: example_rows)
  from get_datasource_registered [OF x sx, of 1]
  have two_rows: "get_datasource example_sources ''x'' 1 duplicate_session
                  = Inl MultipleResultsFound"
    by (simp add: example_rows)
  from y sy sx one_row no_row two_rows show ?thesis by simp
qed


subsection \<open>\<^verbatim>\<open>query_datasources_by_permissions\<close>\<close>

text \<open>
  C4. When the type of the database is registered and the session can read the table of
  its class, \<^verbatim>\<open>query_datasources_by_permissions\<close> returns exactly the rows of that table
  whose \<^verbatim>\<open>database_id\<close> is the id of the database and whose \<^verbatim>\<open>perm\<close> is in
  \<^verbatim>\<open>permissions\<close> or whose \<^verbatim>\<open>schema_perm\<close> is in \<^verbatim>\<open>schema_perms\<close>, in the order of the
  table. A row of the database with neither permission is therefore left out.
\<close>

theorem query_datasources_by_permissions_rows:
  assumes "getitem srcs (type_db database) = Some datasource_class"
      and "session_query session datasource_class = Inr rows"
  shows "query_datasources_by_permissions srcs session database permissions schema_perms
         = Inr (filter (\<lambda>row. database_id row = id_db database
                            \<and> (perm row \<in> permissions \<or> schema_perm row \<in> schema_perms)) rows)"
  using assms
  by (simp add: query_datasources_by_permissions_def all_q_def conj_commute)

text \<open>
  In the example, \<open>example_x1\<close> qualifies by its schema permission, \<open>example_x2\<close> by its
  permission, \<open>example_x3\<close> belongs to another database, and \<open>example_x5\<close> belongs to
  the database but has neither permission.
\<close>

theorem query_datasources_by_permissions_rows_witness:
  "getitem example_sources (type_db \<lparr>id_db = 10, type_db = ''x''\<rparr>) = Some example_X
   \<and> session_query example_session example_X
     = Inr [example_x1, example_x2, example_x3, example_x5]
   \<and> query_datasources_by_permissions example_sources example_session
        \<lparr>id_db = 10, type_db = ''x''\<rparr> {''p2''} {''s1''}
     = Inr [example_x1, example_x2]"
proof -
  have g: "getitem example_sources (type_db \<lparr>id_db = 10, type_db = ''x''\<rparr>) = Some example_X"
    by (simp add: example_sources_def)
  have s: "session_query example_session example_X
           = Inr [example_x1, example_x2, example_x3, example_x5]"
    by (simp add: session_query_def example_session_def example_tablenames)
  from query_datasources_by_permissions_rows [OF g s, of "{''p2''}" "{''s1''}"]
  have "query_datasources_by_permissions example_sources example_session
          \<lparr>id_db = 10, type_db = ''x''\<rparr> {''p2''} {''s1''}
        = Inr [example_x1, example_x2]"
    by (simp add: example_rows)
  with g s show ?thesis by simp
qed

subsection \<open>\<^verbatim>\<open>get_datasource_by_id\<close>\<close>

text \<open>
  C5, as the specification states it, fails: the scan does not go on to the first class
  with exactly one match. With two rows of id 1 in the table of \<open>example_X\<close>, and
  exactly one in the table of \<open>example_Y\<close>, registered after it, the call does not
  return the row of \<open>example_Y\<close> but ends in \<^verbatim>\<open>MultipleResultsFound\<close>.
\<close>

theorem get_datasource_by_id_counterexample:
  "get_datasource example_sources ''y'' 1 duplicate_session = Inr example_y1
   \<and> get_datasource_by_id example_sources duplicate_session 1 = Inl MultipleResultsFound
   \<and> get_datasource_by_id example_sources duplicate_session 1 \<noteq> Inr example_y1"
  by (simp add: get_datasource_def get_datasource_by_id_def values_of_def example_sources_def
      duplicate_session_def session_query_def example_tablenames example_rows)

text \<open>
  C5, amended. \<^verbatim>\<open>get_datasource_by_id\<close> scans the registered classes in the iteration
  order of the registry and returns the row of the first class that has a row of the
  id, when that class has exactly one such row (every class before it having none). When
  no query of the session itself raises \<^verbatim>\<open>NoResultFound\<close>, the call fails with
  \<^verbatim>\<open>NoResultFound\<close> exactly when no registered class has a row of the id.
\<close>

theorem get_datasource_by_id_scan:
  "(values_of srcs = earlier @ c # later
      \<and> (\<forall>c' \<in> set earlier. rows_by_id session c' i = Inr [])
      \<and> rows_by_id session c i = Inr [row]
    \<longrightarrow> get_datasource_by_id srcs session i = Inr row)
   \<and> ((\<forall>c' \<in> set (values_of srcs). session_query session c' \<noteq> Inl NoResultFound)
    \<longrightarrow> (get_datasource_by_id srcs session i = Inl NoResultFound
         \<longleftrightarrow> (\<forall>c' \<in> set (values_of srcs). rows_by_id session c' i = Inr [])))"
proof (intro conjI impI)
  assume a: "values_of srcs = earlier @ c # later
      \<and> (\<forall>c' \<in> set earlier. rows_by_id session c' i = Inr [])
      \<and> rows_by_id session c i = Inr [row]"
  then have "\<forall>c' \<in> set earlier. one (rows_by_id session c' i) = Inl NoResultFound"
    by simp
  then have "get_datasource_by_id_loop session (earlier @ c # later) i
             = get_datasource_by_id_loop session (c # later) i"
    by (rule get_datasource_by_id_loop_skip)
  with a show "get_datasource_by_id srcs session i = Inr row"
    by (simp add: get_datasource_by_id_def)
next
  assume "\<forall>c' \<in> set (values_of srcs). session_query session c' \<noteq> Inl NoResultFound"
  then have "\<forall>c' \<in> set (values_of srcs).
      one (rows_by_id session c' i) = Inl NoResultFound \<longleftrightarrow> rows_by_id session c' i = Inr []"
    by (simp add: one_no_row)
  then show "get_datasource_by_id srcs session i = Inl NoResultFound
         \<longleftrightarrow> (\<forall>c' \<in> set (values_of srcs). rows_by_id session c' i = Inr [])"
    by (simp add: get_datasource_by_id_def get_datasource_by_id_loop_not_found)
qed

text \<open>
  In the example, id 4 is in no row of \<open>example_X\<close> and in one row of \<open>example_Y\<close>,
  which is returned; id 99 is in no row at all.
\<close>

theorem get_datasource_by_id_scan_witness:
  "values_of example_sources = [example_X] @ example_Y # []
   \<and> rows_by_id example_session example_X 4 = Inr []
   \<and> rows_by_id example_session example_Y 4 = Inr [example_y4]
   \<and> get_datasource_by_id example_sources example_session 4 = Inr example_y4
   \<and> session_query example_session example_X \<noteq> Inl NoResultFound
   \<and> session_query example_session example_Y \<noteq> Inl NoResultFound
   \<and> rows_by_id example_session example_X 99 = Inr []
   \<and> rows_by_id example_session example_Y 99 = Inr []
   \<and> get_datasource_by_id example_sources example_session 99 = Inl NoResultFound"
proof -
  have v: "values_of example_sources = [example_X] @ example_Y # []"
    by (simp add: values_of_def example_sources_def)
  have sx: "session_query example_session example_X
            = Inr [example_x1, example_x2, example_x3, example_x5]"
    and sy: "session_query example_session example_Y = Inr [example_y1, example_y4]"
    by (simp_all add: session_query_def example_session_def example_tablenames)
  have e: "\<forall>c' \<in> set [example_X]. rows_by_id example_session c' 4 = Inr []"
    by (simp add: sx example_rows)
  have m: "rows_by_id example_session example_Y 4 = Inr [example_y4]"
    by (simp add: sy example_rows)
  have ok: "\<forall>c' \<in> set (values_of example_sources).
              session_query example_session c' \<noteq> Inl NoResultFound"
    by (simp add: v sx sy)
  have none: "\<forall>c' \<in> set (values_of example_sources).
                rows_by_id example_session c' 99 = Inr []"
    by (simp add: v sx sy example_rows)
  from get_datasource_by_id_scan
         [where srcs = example_sources and earlier = "[example_X]" and c = example_Y
            and later = "[]" and session = example_session and i = 4 and row = example_y4]
       v e m
  have found: "get_datasource_by_id example_sources example_session 4 = Inr example_y4"
    by blast
  from get_datasource_by_id_scan
         [where srcs = example_sources and earlier = "[example_X]" and c = example_Y
            and later = "[]" and session = example_session and i = 99 and row = example_y4]
       ok none
  have missing: "get_datasource_by_id example_sources example_session 99 = Inl NoResultFound"
    by blast
  from v e m found ok none missing show ?thesis by simp
qed

text \<open>
  C6. While \<^verbatim>\<open>get_datasource_by_id\<close> scans, a class whose lookup ends in
  \<^verbatim>\<open>NoResultFound\<close> is passed over and the scan goes on with the classes after it. When
  the session fails on the query of the class reached, with anything but
  \<^verbatim>\<open>NoResultFound\<close>, that failure is the outcome of the call, whatever the classes
  after it hold.
\<close>

theorem get_datasource_by_id_errors:
  assumes "values_of srcs = earlier @ c # later"
      and "\<forall>c' \<in> set earlier. one (rows_by_id session c' i) = Inl NoResultFound"
  shows "get_datasource_by_id srcs session i = get_datasource_by_id_loop session (c # later) i
       \<and> (session_query session c = Inl e \<and> e \<noteq> NoResultFound
          \<longrightarrow> get_datasource_by_id srcs session i = Inl e)"
proof -
  from assms have
    "get_datasource_by_id srcs session i = get_datasource_by_id_loop session (c # later) i"
    by (simp add: get_datasource_by_id_def get_datasource_by_id_loop_skip)
  then show ?thesis by simp
qed

text \<open>
  In the example, the table of \<open>example_X\<close> has no row of id 1, the session loses its
  connection on the table of \<open>example_Y\<close>, and \<open>example_W\<close>, registered last, has one row
  of id 1, which is not returned.
\<close>

theorem get_datasource_by_id_errors_witness:
  "values_of example_sources3 = [example_X] @ example_Y # [example_W]
   \<and> one (rows_by_id broken_session example_X 1) = Inl NoResultFound
   \<and> session_query broken_session example_Y = Inl (SessionError ''connection lost'')
   \<and> SessionError ''connection lost'' \<noteq> NoResultFound
   \<and> one (rows_by_id broken_session example_W 1) = Inr example_w1
   \<and> get_datasource_by_id example_sources3 broken_session 1
     = Inl (SessionError ''connection lost'')"
proof -
  have v: "values_of example_sources3 = [example_X] @ example_Y # [example_W]"
    by (simp add: values_of_def example_sources3_def)
  have e: "\<forall>c' \<in> set [example_X]. one (rows_by_id broken_session c' 1) = Inl NoResultFound"
    by (simp add: session_query_def broken_session_def example_tablenames example_rows)
  have f: "session_query broken_session example_Y = Inl (SessionError ''connection lost'')"
    by (simp add: session_query_def broken_session_def example_tablenames)
  have w: "one (rows_by_id broken_session example_W 1) = Inr example_w1"
    by (simp add: session_query_def broken_session_def example_tablenames example_rows)
  from get_datasource_by_id_errors [OF v e, where e = "SessionError ''connection lost''"] f
  have "get_datasource_by_id example_sources3 broken_session 1
        = Inl (SessionError ''connection lost'')"
    by simp
  with v e f w show ?thesis by simp
qed

text \<open>
  C10. When the scan of \<^verbatim>\<open>get_datasource_by_id\<close> reaches a class that has several rows
  of the id, the classes before it having none, the call fails with
  \<^verbatim>\<open>MultipleResultsFound\<close>, whatever the classes after it hold.
\<close>

theorem get_datasource_by_id_multiple:
  assumes "values_of srcs = earlier @ c # later"
      and "\<forall>c' \<in> set earlier. rows_by_id session c' i = Inr []"
      and "rows_by_id session c i = Inr (row # row' # rows)"
  shows "get_datasource_by_id srcs session i = Inl MultipleResultsFound"
proof -
  from assms(2) have "\<forall>c' \<in> set earlier. one (rows_by_id session c' i) = Inl NoResultFound"
    by simp
  with assms(1) have
    "get_datasource_by_id srcs session i = get_datasource_by_id_loop session (c # later) i"
    by (simp add: get_datasource_by_id_def get_datasource_by_id_loop_skip)
  with assms(3) show ?thesis by simp
qed

text \<open>
  In the example, \<open>example_Y\<close> has two rows of id 1 and \<open>example_W\<close>, registered after
  it, exactly one.
\<close>

theorem get_datasource_by_id_multiple_witness:
  "values_of example_sources3 = [example_X] @ example_Y # [example_W]
   \<and> rows_by_id ambiguous_session example_X 1 = Inr []
   \<and> rows_by_id ambiguous_session example_Y 1 = Inr (example_y1 # example_y1_dup # [])
   \<and> rows_by_id ambiguous_session example_W 1 = Inr [example_w1]
   \<and> get_datasource_by_id example_sources3 ambiguous_session 1 = Inl MultipleResultsFound"
proof -
  have v: "values_of example_sources3 = [example_X] @ example_Y # [example_W]"
    by (simp add: values_of_def example_sources3_def)
  have e: "\<forall>c' \<in> set [example_X]. rows_by_id ambiguous_session c' 1 = Inr []"
    by (simp add: session_query_def ambiguous_session_def example_tablenames example_rows)
  have m: "rows_by_id ambiguous_session example_Y 1 = Inr (example_y1 # example_y1_dup # [])"
    by (simp add: session_query_def ambiguous_session_def example_tablenames example_rows)
  have w: "rows_by_id ambiguous_session example_W 1 = Inr [example_w1]"
    by (simp add: session_query_def ambiguous_session_def example_tablenames example_rows)
  from get_datasource_by_id_multiple [OF v e m] v e m w show ?thesis by simp
qed


subsection \<open>\<^verbatim>\<open>get_all_datasources\<close>\<close>

text \<open>
  C7. When the default-scoped query of every registered class can be executed, with rows
  \<open>scoped c\<close> for the class \<open>c\<close>, \<^verbatim>\<open>get_all_datasources\<close> returns these rows class by
  class, in the iteration order of the registry, as one list. A class that is not in the
  registry contributes nothing: once the entry of a tag \<open>t\<close> is removed from the
  dictionary, the next call returns the rows of the remaining classes only.
\<close>

theorem get_all_datasources_concat:
  assumes "\<forall>c \<in> set (values_of srcs).
             all_q (default_query c (session_query session c)) = Inr (scoped c)"
  shows "get_all_datasources srcs session = Inr (concat (map scoped (values_of srcs)))
       \<and> get_all_datasources (filter (\<lambda>item. fst item \<noteq> t) srcs) session
         = Inr (concat (map scoped (values_of (filter (\<lambda>item. fst item \<noteq> t) srcs))))"
proof
  show "get_all_datasources srcs session = Inr (concat (map scoped (values_of srcs)))"
    using get_all_datasources_loop_concat [OF assms, of "[]"]
    by (simp add: get_all_datasources_def)
next
  let ?srcs' = "filter (\<lambda>item. fst item \<noteq> t) srcs"
  have "set (values_of ?srcs') \<subseteq> set (values_of srcs)"
    by (auto simp: values_of_def)
  with assms have "\<forall>c \<in> set (values_of ?srcs').
             all_q (default_query c (session_query session c)) = Inr (scoped c)"
    by blast
  then show "get_all_datasources ?srcs' session = Inr (concat (map scoped (values_of ?srcs')))"
    using get_all_datasources_loop_concat [of "values_of ?srcs'" session scoped "[]"]
    by (simp add: get_all_datasources_def)
qed

text \<open>
  In the example, the default query of \<open>example_X\<close> hides \<open>example_x3\<close>, a row of
  database 11; without the entry of \<open>''x''\<close> only the rows of \<open>example_Y\<close> are left.
\<close>

theorem get_all_datasources_concat_witness:
  "values_of example_sources = [example_X, example_Y]
   \<and> all_q (default_query example_X (session_query example_session example_X))
     = Inr [example_x1, example_x2, example_x5]
   \<and> all_q (default_query example_Y (session_query example_session example_Y))
     = Inr [example_y1, example_y4]
   \<and> get_all_datasources example_sources example_session
     = Inr [example_x1, example_x2, example_x5, example_y1, example_y4]
   \<and> get_all_datasources (filter (\<lambda>item. fst item \<noteq> ''x'') example_sources) example_session
     = Inr [example_y1, example_y4]"
proof -
  have v: "values_of example_sources = [example_X, example_Y]"
    by (simp add: values_of_def example_sources_def)
  have h: "\<forall>c \<in> set (values_of example_sources).
      all_q (default_query c (session_query example_session c))
      = Inr (if tablename c = ''x_table'' then [example_x1, example_x2, example_x5]
             else [example_y1, example_y4])"
    by (simp add: v all_q_def session_query_def example_session_def example_tablenames
        example_default_queries example_rows)
  have f: "filter (\<lambda>item. fst item \<noteq> ''x'') example_sources = [(''y'', example_Y)]"
    by (simp add: example_sources_def)
  have v': "values_of [(''y'', example_Y)] = [example_Y]"
    by (simp add: values_of_def)
  from get_all_datasources_concat [OF h, of "''x''"]
  have "get_all_datasources example_sources example_session
        = Inr [example_x1, example_x2, example_x5, example_y1, example_y4]
      \<and> get_all_datasources (filter (\<lambda>item. fst item \<noteq> ''x'') example_sources) example_session
        = Inr [example_y1, example_y4]"
    by (simp add: v f v' example_tablenames)
  with v h show ?thesis by (simp add: example_tablenames)
qed

subsection \<open>\<^verbatim>\<open>get_eager_datasource\<close>\<close>

text \<open>
  C8, as the specification states it, fails: \<^verbatim>\<open>get_eager_datasource\<close> does not fail as
  \<^verbatim>\<open>get_datasource\<close> does. For the unregistered tag \<open>''z''\<close> it raises \<^verbatim>\<open>KeyError\<close>, and for
  the registered tag \<open>''x''\<close> with the id 99, which no row has, it raises
  \<^verbatim>\<open>NoResultFound\<close>; \<^verbatim>\<open>get_datasource\<close> raises \<^verbatim>\<open>DatasetNotFoundError\<close> in both cases.
\<close>

theorem get_eager_datasource_counterexample:
  "get_eager_datasource example_sources example_session ''z'' 1 = Inl (KeyError ''z'')
   \<and> get_datasource example_sources ''z'' 1 example_session = Inl DatasetNotFoundError
   \<and> get_eager_datasource example_sources example_session ''x'' 99 = Inl NoResultFound
   \<and> get_datasource example_sources ''x'' 99 example_session = Inl DatasetNotFoundError"
  by (simp add: get_eager_datasource_def get_datasource_def options_subqueryload_def
      example_sources_def example_session_def session_query_def example_tablenames example_rows)

text \<open>
  C8, amended. \<^verbatim>\<open>get_eager_datasource\<close> fails with \<^verbatim>\<open>KeyError\<close> when the type tag is not
  registered, and with \<^verbatim>\<open>NoResultFound\<close> when the tag is registered and no row of its
  class has the id; \<^verbatim>\<open>get_datasource\<close> fails with \<^verbatim>\<open>DatasetNotFoundError\<close> in both
  cases.
\<close>

theorem get_eager_datasource_failures:
  "(getitem srcs datasource_type = None
    \<longrightarrow> get_eager_datasource srcs session datasource_type datasource_id
          = Inl (KeyError datasource_type)
      \<and> get_datasource srcs datasource_type datasource_id session = Inl DatasetNotFoundError)
   \<and> (getitem srcs datasource_type = Some datasource_class
      \<and> rows_by_id session datasource_class datasource_id = Inr []
    \<longrightarrow> get_eager_datasource srcs session datasource_type datasource_id = Inl NoResultFound
      \<and> get_datasource srcs datasource_type datasource_id session = Inl DatasetNotFoundError)"
  by (simp add: get_eager_datasource_def get_datasource_def options_subqueryload_def)

theorem get_eager_datasource_failures_witness:
  "getitem example_sources ''w'' = None
   \<and> get_eager_datasource example_sources example_session ''w'' 1 = Inl (KeyError ''w'')
   \<and> get_datasource example_sources ''w'' 1 example_session = Inl DatasetNotFoundError
   \<and> getitem example_sources ''y'' = Some example_Y
   \<and> rows_by_id example_session example_Y 7 = Inr []
   \<and> get_eager_datasource example_sources example_session ''y'' 7 = Inl NoResultFound
   \<and> get_datasource example_sources ''y'' 7 example_session = Inl DatasetNotFoundError"
proof -
  have w: "getitem example_sources ''w'' = None"
    and y: "getitem example_sources ''y'' = Some example_Y"
    by (simp_all add: example_sources_def)
  have r: "rows_by_id example_session example_Y 7 = Inr []"
    by (simp add: session_query_def example_session_def example_tablenames example_rows)
  from get_eager_datasource_failures
         [where srcs = example_sources and datasource_type = "''w''" and datasource_id = 1
            and session = example_session] w
  have unknown:
    "get_eager_datasource example_sources example_session ''w'' 1 = Inl (KeyError ''w'')
     \<and> get_datasource example_sources ''w'' 1 example_session = Inl DatasetNotFoundError"
    by blast
  from get_eager_datasource_failures
         [where srcs = example_sources and datasource_type = "''y''" and datasource_id = 7
            and session = example_session and datasource_class = example_Y] y r
  have missing:
    "get_eager_datasource example_sources example_session ''y'' 7 = Inl NoResultFound
     \<and> get_datasource example_sources ''y'' 7 example_session = Inl DatasetNotFoundError"
    by blast
  from w y r unknown missing show ?thesis by blast
qed

subsection \<open>\<^verbatim>\<open>get_datasource_by_name\<close>\<close>

text \<open>
  C9. With an unregistered type tag \<^verbatim>\<open>get_datasource_by_name\<close> fails with the \<^verbatim>\<open>KeyError\<close>
  of the dictionary. With a registered tag it returns what the
  \<^verbatim>\<open>get_datasource_by_name\<close> of the registered class returns for the same session, name,
  schema and database name; in particular a \<^verbatim>\<open>None\<close> of the class for a name that
  matches nothing is returned as \<^verbatim>\<open>None\<close>, not turned into a failure.
\<close>

theorem get_datasource_by_name_delegates:
  "(getitem srcs datasource_type = None
    \<longrightarrow> get_datasource_by_name srcs session datasource_type datasource_name schema database_name
          = Inl (KeyError datasource_type))
   \<and> (getitem srcs datasource_type = Some datasource_class
    \<longrightarrow> get_datasource_by_name srcs session datasource_type datasource_name schema database_name
          = get_datasource_by_name_cls datasource_class session datasource_name schema
              database_name)
   \<and> (getitem srcs datasource_type = Some datasource_class
      \<and> get_datasource_by_name_cls datasource_class session datasource_name schema database_name
        = Inr None
    \<longrightarrow> get_datasource_by_name srcs session datasource_type datasource_name schema database_name
          = Inr None)"
  by (simp add: get_datasource_by_name_def)

theorem get_datasource_by_name_delegates_witness:
  "getitem example_sources ''z'' = None
   \<and> get_datasource_by_name example_sources example_session ''z'' ''births'' ''public'' ''main''
     = Inl (KeyError ''z'')
   \<and> getitem example_sources ''x'' = Some example_X
   \<and> get_datasource_by_name example_sources example_session ''x'' ''births'' ''public'' ''main''
     = Inr (Some example_x1)
   \<and> get_datasource_by_name_cls example_X example_session ''deaths'' ''public'' ''main''
     = Inr None
   \<and> get_datasource_by_name example_sources example_session ''x'' ''deaths'' ''public'' ''main''
     = Inr None"
proof -
  have z: "getitem example_sources ''z'' = None"
    and x: "getitem example_sources ''x'' = Some example_X"
    by (simp_all add: example_sources_def)
  have b: "get_datasource_by_name_cls example_X example_session ''births'' ''public'' ''main''
           = Inr (Some example_x1)"
    and d: "get_datasource_by_name_cls example_X example_session ''deaths'' ''public'' ''main''
           = Inr None"
    by (simp_all add: example_X_def)
  from get_datasource_by_name_delegates
         [where srcs = example_sources and datasource_type = "''z''"
            and session = example_session and datasource_name = "''births''"
            and schema = "''public''" and database_name = "''main''"] z
  have unknown:
    "get_datasource_by_name example_sources example_session ''z'' ''births'' ''public'' ''main''
     = Inl (KeyError ''z'')"
    by blast
  from get_datasource_by_name_delegates
         [where srcs = example_sources and datasource_type = "''x''"
            and datasource_class = example_X
            and session = example_session and datasource_name = "''births''"
            and schema = "''public''" and database_name = "''main''"] x b
  have found:
    "get_datasource_by_name example_sources example_session ''x'' ''births'' ''public'' ''main''
     = Inr (Some example_x1)"
    by simp
  from get_datasource_by_name_delegates
         [where srcs = example_sources and datasource_type = "''x''"
            and datasource_class = example_X
            and session = example_session and datasource_name = "''deaths''"
            and schema = "''public''" and database_name = "''main''"] x d
  have absent:
    "get_datasource_by_name example_sources example_session ''x'' ''deaths'' ''public'' ''main''
     = Inr None"
    by blast
  from z x d unknown found absent show ?thesis by blast
qed


end
